theory Spec2Isabelle
  imports Main "HOL-Library.Char_ord" "HOL-Library.List_Lexorder" "HOL-Library.Product_Lexorder"
begin

section \<open>Python values, exceptions and strings\<close>

text \<open>
  The development embeds the class \<open>SQLiteAdapter\<close> of
  \<^verbatim>\<open>ampligraph/datasets/sqlite_adapter.py\<close>. Exceptions are values of the type
  \<open>error\<close>; a method that can raise returns \<open>error + 'a\<close> together with the state
  of the object it leaves behind. Output written with \<open>print\<close> is not part of the state.
\<close>

datatype error =
    AssertionError string
  | AttributeError string
  | KeyError string
  | IndexError string
  | TypeError string
  | ValueError string
  | ZeroDivisionError
  | OverflowError string
  | OperationalError string
  | ProgrammingError string

text \<open>\<open>sqlite3.OperationalError\<close> and \<open>sqlite3.ProgrammingError\<close> are the subclasses of
  \<open>sqlite3.Error\<close> the backend raises; \<open>except Error\<close> catches exactly these.\<close>

fun is_sqlite3_Error :: "error \<Rightarrow> bool" where
  "is_sqlite3_Error (OperationalError m) = True"
| "is_sqlite3_Error (ProgrammingError m) = True"
| "is_sqlite3_Error e = False"

datatype pyval = PyNone | PyBool bool | PyInt int | PyStr string | PyObj string

text \<open>
  A Python string is a list of segments: literal characters, the decimal text of an
  integer, the text of \<open>",".join(str(v) for v in vs)\<close>, and the text of
  \<open>", ".join(["?"]*n)\<close>. A string literal \<open>"abc"\<close> of the source is \<open>[Lit ''abc'']\<close>.
\<close>

datatype seg =
    Lit string
  | Num int
  | Nums "int list"
  | Marks nat

type_synonym pystr = "seg list"

definition quote :: string where
  "quote = [CHR 0x27]"

definition backslash :: string where
  "backslash = [CHR 0x5C]"

definition str_arg :: "string \<Rightarrow> pystr" where
  "str_arg s = [Lit s]"

definition int_arg :: "int \<Rightarrow> pystr" where
  "int_arg n = [Num n]"

subsection \<open>\<open>str.format\<close>\<close>

text \<open>A field name made of decimal digits is a positional index.\<close>

definition digit_val :: "char \<Rightarrow> nat option" where
  "digit_val c =
     (let n = (of_char c :: nat) in if 48 \<le> n \<and> n \<le> 57 then Some (n - 48) else None)"

fun digits_val :: "nat \<Rightarrow> string \<Rightarrow> nat option" where
  "digits_val acc [] = Some acc"
| "digits_val acc (c # cs) =
     (case digit_val c of None \<Rightarrow> None | Some d \<Rightarrow> digits_val (10 * acc + d) cs)"

text \<open>
  The value of one replacement field, given the positional arguments and the number of
  automatically numbered fields met so far: an empty field name takes the next argument,
  a numeric one the argument of that index, any other name is looked up among the keyword
  arguments, of which the adapter never passes any, and raises \<open>KeyError\<close>.
\<close>

definition resolve :: "pystr list \<Rightarrow> nat \<Rightarrow> string \<Rightarrow> error + pystr \<times> nat" where
  "resolve args k f =
     (if f = [] then
        (if k < length args then Inr (args ! k, Suc k)
         else Inl (IndexError ''Replacement index out of range''))
      else
        (case digits_val 0 f of
           None \<Rightarrow> Inl (KeyError f)
         | Some j \<Rightarrow>
             if j < length args then Inr (args ! j, k)
             else Inl (IndexError ''Replacement index out of range'')))"

text \<open>
  The scanner of \<open>str.format\<close>, which renders from left to right: \<open>{{\<close> and \<open>}}\<close> are
  escaped braces, \<open>{\<close> opens a replacement field that runs to the next \<open>}\<close> and is
  replaced by its value, a single \<open>}\<close> outside a field and an unclosed field are a
  \<open>ValueError\<close>. Arguments that are left over are ignored, and the text put in for a
  field is not scanned again. (Conversions \<open>!r\<close> and format specifications \<open>:spec\<close>
  do not occur in the adapter and are not split off the field name.)
\<close>

datatype scan_mode = Outside | Inside

fun py_scan ::
  "pystr list \<Rightarrow> scan_mode \<Rightarrow> nat \<Rightarrow> string \<Rightarrow> string \<Rightarrow> error + pystr \<times> nat" where
  "py_scan args Outside k acc [] = Inr ([Lit acc], k)"
| "py_scan args Inside k acc [] = Inl (ValueError ''expected } before end of string'')"
| "py_scan args Outside k acc (c # cs) =
     (if c = CHR ''{'' then
        (case cs of
           [] \<Rightarrow> Inl (ValueError ''Single { encountered in format string'')
         | d # ds \<Rightarrow>
             if d = CHR ''{'' then py_scan args Outside k (acc @ [c]) ds
             else (case py_scan args Inside k [] cs of
                     Inl e \<Rightarrow> Inl e
                   | Inr (r, k') \<Rightarrow> Inr (Lit acc # r, k')))
      else if c = CHR ''}'' then
        (case cs of
           [] \<Rightarrow> Inl (ValueError ''Single } encountered in format string'')
         | d # ds \<Rightarrow>
             if d = CHR ''}'' then py_scan args Outside k (acc @ [c]) ds
             else Inl (ValueError ''Single } encountered in format string''))
      else py_scan args Outside k (acc @ [c]) cs)"
| "py_scan args Inside k acc (c # cs) =
     (if c = CHR ''}'' then
        (case resolve args k acc of
           Inl e \<Rightarrow> Inl e
         | Inr (t, k') \<Rightarrow>
             (case py_scan args Outside k' [] cs of
                Inl e \<Rightarrow> Inl e
              | Inr (r, k'') \<Rightarrow> Inr (t @ r, k'')))
      else py_scan args Inside k (acc @ [c]) cs)"

text \<open>The literal segments of a string are scanned in turn; the other segments hold
  digits, commas and question marks only.\<close>

fun format_segs :: "pystr list \<Rightarrow> nat \<Rightarrow> pystr \<Rightarrow> error + pystr" where
  "format_segs args k [] = Inr []"
| "format_segs args k (Lit s # ss) =
     (case py_scan args Outside k [] s of
        Inl e \<Rightarrow> Inl e
      | Inr (r, k') \<Rightarrow>
          (case format_segs args k' ss of Inl e \<Rightarrow> Inl e | Inr r' \<Rightarrow> Inr (r @ r')))"
| "format_segs args k (s # ss) =
     (case format_segs args k ss of Inl e \<Rightarrow> Inl e | Inr r \<Rightarrow> Inr (s # r))"

text \<open>\<open>s.format(args)\<close>.\<close>

definition str_format :: "pystr \<Rightarrow> pystr list \<Rightarrow> error + pystr" where
  "str_format s args = format_segs args 0 s"

section \<open>The class, its attributes and its constructor\<close>

definition DEFAULT_CHUNKSIZE :: int where
  "DEFAULT_CHUNKSIZE = 30000"

text \<open>The names bound in the body of \<open>class SQLiteAdapter\<close>, in the order of the source,
  and the attributes every instance inherits from \<open>object\<close>. The class has no base class
  of its own and defines neither \<open>__getattr__\<close> nor \<open>__slots__\<close>.\<close>

definition SQLiteAdapter_methods :: "string list" where
  "SQLiteAdapter_methods =
     [''__init__'', ''__enter__'', ''__exit__'', ''_get_db_schema'', ''_get_clean_up'',
      ''_execute_query'', ''_execute_queries'', ''_insert_values_to_a_table'',
      ''_create_database'', ''_get_triples'', ''get_indexed_triples'', ''index_entities'',
      ''is_indexed'', ''reload_data'', ''populate'', ''get_data_size'', ''clean_up'',
      ''remove_db'', ''_get_complementary_objects'', ''_get_complementary_subjects'',
      ''_get_complementary_entities'', ''_get_batch'', ''summary'', ''_load'']"

definition object_attributes :: "string list" where
  "object_attributes =
     [''__class__'', ''__delattr__'', ''__dict__'', ''__dir__'', ''__doc__'', ''__eq__'',
      ''__format__'', ''__ge__'', ''__getattribute__'', ''__gt__'', ''__hash__'',
      ''__init_subclass__'', ''__le__'', ''__lt__'', ''__module__'', ''__ne__'', ''__new__'',
      ''__reduce__'', ''__reduce_ex__'', ''__repr__'', ''__setattr__'', ''__sizeof__'',
      ''__str__'', ''__subclasshook__'', ''__weakref__'']"

text \<open>Attribute lookup on the class: the name of the attribute found, or
  \<open>AttributeError\<close>.\<close>

definition class_getattr :: "string \<Rightarrow> error + string" where
  "class_getattr n =
     (if n \<in> set SQLiteAdapter_methods \<or> n \<in> set object_attributes then Inr n
      else Inl (AttributeError n))"

text \<open>The attributes assigned on an instance are a dictionary; a name that was never
  assigned is absent from it. Lookup on an instance tries the dictionary, then the
  class.\<close>

type_synonym attrs = "string \<rightharpoonup> pyval"

definition getattr :: "attrs \<Rightarrow> string \<Rightarrow> error + pyval" where
  "getattr self n =
     (case self n of
        Some v \<Rightarrow> Inr v
      | None \<Rightarrow> (case class_getattr n of Inl e \<Rightarrow> Inl e | Inr m \<Rightarrow> Inr (PyObj m)))"

text \<open>\<open>os.path.join\<close> of two components on a POSIX system.\<close>

definition path_join :: "string \<Rightarrow> string \<Rightarrow> string" where
  "path_join a b =
     (if b \<noteq> [] \<and> hd b = CHR ''/'' then b
      else if a = [] \<or> last a = CHR ''/'' then a @ b
      else a @ ''/'' @ b)"

text \<open>\<open>v == False\<close> holds of \<open>False\<close> and of the integer \<open>0\<close>.\<close>

definition py_eq_False :: "pyval \<Rightarrow> bool" where
  "py_eq_False v = (v = PyBool False \<or> v = PyInt 0)"

text \<open>The arguments of \<open>__init__\<close>. An argument that has a default is given as its
  value, except \<open>chunk_size\<close>, where \<open>None\<close> stands for the argument left out of the call
  (so that the default \<open>DEFAULT_CHUNKSIZE\<close> of the signature is taken) and
  \<open>Some PyNone\<close> for Python's \<open>None\<close> passed explicitly.\<close>

record init_args =
  arg_db_name :: string
  arg_chunk_size :: "pyval option"
  arg_root_directory :: string
  arg_use_indexer :: pyval
  arg_verbose :: pyval
  arg_remap :: pyval
  arg_name :: pyval
  arg_parent :: pyval
  arg_in_memory :: pyval

text \<open>\<open>__init__\<close>: the exception raised, if any, and the attributes assigned on \<open>self\<close>
  up to that point. In the branch \<open>chunk_size is None\<close> only the local variable
  \<open>chunk_size\<close> is assigned, and the arguments of \<open>print\<close>, among them
  \<open>self.__name__()\<close>, are evaluated before anything is printed.\<close>

definition SQLiteAdapter_init :: "init_args \<Rightarrow> error option \<times> attrs" where
  "SQLiteAdapter_init args =
     (let self1 = [''db_name'' \<mapsto> PyStr (arg_db_name args),
                   ''root_directory'' \<mapsto> PyStr (arg_root_directory args),
                   ''db_path'' \<mapsto>
                      PyStr (path_join (arg_root_directory args) (arg_db_name args)),
                   ''use_indexer'' \<mapsto> arg_use_indexer args,
                   ''remap'' \<mapsto> arg_remap args]
      in if \<not> py_eq_False (arg_remap args) then
           (Some (AssertionError
              ''Remapping is not supported for DataLoaders with SQLite Adapter as backend''),
            self1)
         else
           (let self2 = self1(''name'' \<mapsto> arg_name args,
                              ''parent'' \<mapsto> arg_parent args,
                              ''verbose'' \<mapsto> arg_verbose args,
                              ''in_memory'' \<mapsto> arg_in_memory args);
                chunk_size =
                  (case arg_chunk_size args of
                     None \<Rightarrow> PyInt DEFAULT_CHUNKSIZE
                   | Some v \<Rightarrow> v)
            in if chunk_size = PyNone then
                 (case getattr self2 ''__name__'' of
                    Inl e \<Rightarrow> (Some e, self2)
                  | Inr f \<Rightarrow> (None, self2))
               else (None, self2(''chunk_size'' \<mapsto> chunk_size))))"

section \<open>The SQLite store\<close>

text \<open>
  The database holds the table \<open>triples_table\<close> of the schema, with the columns
  \<open>subject\<close>, \<open>predicate\<close>, \<open>object\<close> and \<open>dataset_type\<close>, its rows in the order
  of insertion (\<open>None\<close> while the table does not exist), and the names of the indexes
  on it, which hold no data of their own. A row fetched by Python is a tuple of column
  values. SQLite is not part of the repository: what follows is its behaviour on the
  statements the adapter sends, in the segments its templates give them. On any other
  text the model answers with a syntax error, which is what SQLite does with text that is
  no statement; other statements of SQL are outside the model.
\<close>

datatype sqlval = SqlInt int | SqlText string

type_synonym row = "sqlval \<times> sqlval \<times> sqlval \<times> sqlval"

type_synonym pytuple = "sqlval list"

record database =
  triples_table :: "row list option"
  indexes :: "string list"

definition col_subject :: "row \<Rightarrow> sqlval" where
  "col_subject r = fst r"

definition col_predicate :: "row \<Rightarrow> sqlval" where
  "col_predicate r = fst (snd r)"

definition col_object :: "row \<Rightarrow> sqlval" where
  "col_object r = fst (snd (snd r))"

definition col_dataset_type :: "row \<Rightarrow> sqlval" where
  "col_dataset_type r = snd (snd (snd r))"

definition as_tuple :: "row \<Rightarrow> pytuple" where
  "as_tuple r = [col_subject r, col_predicate r, col_object r, col_dataset_type r]"

text \<open>SQLite sorts integers before text, integers by value and text bytewise.\<close>

definition sql_key :: "sqlval \<Rightarrow> nat \<times> int \<times> string" where
  "sql_key v = (case v of SqlInt i \<Rightarrow> (0, i, []) | SqlText s \<Rightarrow> (1, 0, s))"

datatype ordering = Unordered | BySubject | ByObject | BySubjectObject

definition order_of_index :: "string \<Rightarrow> ordering option" where
  "order_of_index ix =
     (if ix = [] then Some Unordered
      else if ix = ''ORDER BY subject'' then Some BySubject
      else if ix = ''ORDER BY object'' then Some ByObject
      else if ix = ''ORDER BY subject, object'' then Some BySubjectObject
      else None)"

fun sql_order :: "ordering \<Rightarrow> row list \<Rightarrow> row list" where
  "sql_order Unordered rs = rs"
| "sql_order BySubject rs = sort_key (\<lambda>r. sql_key (col_subject r)) rs"
| "sql_order ByObject rs = sort_key (\<lambda>r. sql_key (col_object r)) rs"
| "sql_order BySubjectObject rs =
     sort_key (\<lambda>r. (sql_key (col_subject r), sql_key (col_object r))) rs"

text \<open>\<open>LIMIT offset, count\<close>: a negative count is no limit, a negative offset is none.\<close>

definition sql_limit :: "int \<Rightarrow> int \<Rightarrow> 'a list \<Rightarrow> 'a list" where
  "sql_limit off lim xs =
     (let ys = drop (nat off) xs in if lim < 0 then ys else take (nat lim) ys)"

datatype stmt =
    SelectPage string ordering int int
  | SelectRandom string int int
  | SelectCount string "string option"
  | SelectObjects "int list" "int list"
  | SelectSubjects "int list" "int list"
  | CreateTable
  | CreateIndex string
  | DropIndex string
  | DropTable

text \<open>The statement texts, as the adapter's templates produce them.\<close>

definition page_head :: string where
  "page_head =
     ''SELECT * FROM triples_table INDEXED BY                  triples_table_type_idx where dataset_type ='' @ quote"

definition random_head :: string where
  "random_head =
     ''select * from triples_table INDEXED BY triples_table_type_idx                          where dataset_type = '' @ quote"

definition objects_head :: string where
  "objects_head =
     ''select distinct object from triples_table INDEXED BY triples_table_sp_idx where subject in (''"

definition subjects_head :: string where
  "subjects_head =
     ''select distinct subject from triples_table INDEXED BY                  triples_table_po_idx where predicate in (''"

definition decode_page :: "pystr \<Rightarrow> stmt option" where
  "decode_page q =
     (case q of
        [Lit a, Lit l, Lit b, Lit ix, Lit c, Num off, Lit d, Num lim, Lit e] \<Rightarrow>
          if a = page_head \<and> b = quote @ '' '' \<and> c = '' LIMIT '' \<and> d = '', '' \<and> e = []
          then map_option (\<lambda>ord. SelectPage l ord off lim) (order_of_index ix)
          else None
      | _ \<Rightarrow> None)"

definition decode_random :: "pystr \<Rightarrow> stmt option" where
  "decode_random q =
     (case q of
        [Lit a, Lit l, Lit b, Num off, Lit c, Num lim, Lit d] \<Rightarrow>
          if a = random_head \<and> b = quote @ '' order by random() limit '' \<and> c = '', ''
             \<and> d = '';''
          then Some (SelectRandom l off lim)
          else None
      | _ \<Rightarrow> None)"

definition decode_count :: "pystr \<Rightarrow> stmt option" where
  "decode_count q =
     (case q of
        [Lit a, Lit t, Lit b, Lit w, Lit c] \<Rightarrow>
          if a = ''SELECT count(*) from '' \<and> b = '' '' \<and> w = [] \<and> c = '';''
          then Some (SelectCount t None)
          else None
      | [Lit a, Lit t, Lit b, Lit w, Lit l, Lit q', Lit c] \<Rightarrow>
          if a = ''SELECT count(*) from '' \<and> b = '' ''
             \<and> w = ''where dataset_type ='' @ quote \<and> q' = quote \<and> c = '';''
          then Some (SelectCount t (Some l))
          else None
      | _ \<Rightarrow> None)"

definition decode_objects :: "pystr \<Rightarrow> stmt option" where
  "decode_objects q =
     (case q of
        [Lit a, Nums ss, Lit b, Nums ps, Lit c] \<Rightarrow>
          if a = objects_head \<and> b = '') and predicate in ('' \<and> c = '');''
          then Some (SelectObjects ss ps)
          else None
      | _ \<Rightarrow> None)"

definition decode_subjects :: "pystr \<Rightarrow> stmt option" where
  "decode_subjects q =
     (case q of
        [Lit a, Nums ps, Lit b, Nums os, Lit c] \<Rightarrow>
          if a = subjects_head \<and> b = '')  and object in ('' \<and> c = '')''
          then Some (SelectSubjects ps os)
          else None
      | _ \<Rightarrow> None)"

text \<open>The statements of the schema: the table, and an index by its name and columns;
  and the statements that drop them.\<close>

definition newline :: string where
  "newline = [CHR 0x0A]"

definition create_table_text :: string where
  "create_table_text =
     ''CREATE TABLE triples_table (subject integer,'' @ newline @
     ''                                    predicate integer,'' @ newline @
     ''                                    object integer,'' @ newline @
     ''                                    dataset_type text(50)'' @ newline @
     ''                                    );''"

definition schema_indexes :: "(string \<times> string) list" where
  "schema_indexes =
     [(''triples_table_sp_idx'', ''subject, predicate''),
      (''triples_table_po_idx'', ''predicate, object''),
      (''triples_table_type_idx'', ''dataset_type''),
      (''triples_table_sub_obj_idx'', ''subject, object''),
      (''triples_table_subject_idx'', ''subject''),
      (''triples_table_object_idx'', ''object'')]"

definition create_index_text :: "string \<times> string \<Rightarrow> string" where
  "create_index_text ix =
     ''CREATE INDEX '' @ fst ix @ '' ON triples_table ('' @ snd ix @ '');''"

definition drop_index_text :: "string \<times> string \<Rightarrow> string" where
  "drop_index_text ix = ''drop index IF EXISTS '' @ fst ix"

definition decode_ddl :: "pystr \<Rightarrow> stmt option" where
  "decode_ddl q =
     (case q of
        [Lit s] \<Rightarrow>
          if s = create_table_text then Some CreateTable
          else if s = ''drop table IF EXISTS triples_table'' then Some DropTable
          else
            (case find (\<lambda>ix. s = create_index_text ix) schema_indexes of
               Some ix \<Rightarrow> Some (CreateIndex (fst ix))
             | None \<Rightarrow>
                 (case find (\<lambda>ix. s = drop_index_text ix) schema_indexes of
                    Some ix \<Rightarrow> Some (DropIndex (fst ix))
                  | None \<Rightarrow> None))
      | _ \<Rightarrow> None)"

definition sqlite_decode :: "pystr \<Rightarrow> stmt option" where
  "sqlite_decode q =
     (case decode_page q of Some s \<Rightarrow> Some s | None \<Rightarrow>
      (case decode_random q of Some s \<Rightarrow> Some s | None \<Rightarrow>
       (case decode_count q of Some s \<Rightarrow> Some s | None \<Rightarrow>
        (case decode_objects q of Some s \<Rightarrow> Some s | None \<Rightarrow>
         (case decode_subjects q of Some s \<Rightarrow> Some s | None \<Rightarrow> decode_ddl q)))))"

text \<open>
  The rows a query returns on a table. \<open>ORDER BY random()\<close> sorts by a fresh random
  number per row: \<open>rnd\<close> gives the numbers drawn while the statement runs. A text compared
  with a column is matched by equality, which is what the comparison does for a label
  without quote characters. The other statements return no rows.
\<close>

fun sqlite_select :: "(row \<Rightarrow> int) \<Rightarrow> row list \<Rightarrow> stmt \<Rightarrow> pytuple list" where
  "sqlite_select rnd rs (SelectPage l ord off lim) =
     map as_tuple
       (sql_limit off lim (sql_order ord (filter (\<lambda>r. col_dataset_type r = SqlText l) rs)))"
| "sqlite_select rnd rs (SelectRandom l off lim) =
     map as_tuple
       (sql_limit off lim (sort_key rnd (filter (\<lambda>r. col_dataset_type r = SqlText l) rs)))"
| "sqlite_select rnd rs (SelectCount t None) = [[SqlInt (int (length rs))]]"
| "sqlite_select rnd rs (SelectCount t (Some l)) =
     [[SqlInt (int (length (filter (\<lambda>r. col_dataset_type r = SqlText l) rs)))]]"
| "sqlite_select rnd rs (SelectObjects ss ps) =
     map (\<lambda>v. [v])
       (remdups (map col_object
          (filter (\<lambda>r. col_subject r \<in> SqlInt ` set ss \<and> col_predicate r \<in> SqlInt ` set ps)
             rs)))"
| "sqlite_select rnd rs (SelectSubjects ps os) =
     map (\<lambda>v. [v])
       (remdups (map col_subject
          (filter (\<lambda>r. col_predicate r \<in> SqlInt ` set ps \<and> col_object r \<in> SqlInt ` set os)
             rs)))"
| "sqlite_select rnd rs s = []"

fun stmt_table :: "stmt \<Rightarrow> string" where
  "stmt_table (SelectCount t c) = t"
| "stmt_table s = ''triples_table''"

text \<open>The index a query names with \<open>INDEXED BY\<close>: the statement is refused when the
  index does not exist.\<close>

fun stmt_index :: "stmt \<Rightarrow> string option" where
  "stmt_index (SelectPage l ord off lim) = Some ''triples_table_type_idx''"
| "stmt_index (SelectRandom l off lim) = Some ''triples_table_type_idx''"
| "stmt_index (SelectObjects ss ps) = Some ''triples_table_sp_idx''"
| "stmt_index (SelectSubjects ps os) = Some ''triples_table_po_idx''"
| "stmt_index s = None"

text \<open>One statement run on a database: the rows fetched and the database it leaves,
  or the error. Dropping the table drops its indexes.\<close>

fun sqlite_run ::
  "(row \<Rightarrow> int) \<Rightarrow> database \<Rightarrow> stmt \<Rightarrow> error + pytuple list \<times> database" where
  "sqlite_run rnd db CreateTable =
     (if triples_table db = None then Inr ([], db\<lparr>triples_table := Some []\<rparr>)
      else Inl (OperationalError ''table triples_table already exists''))"
| "sqlite_run rnd db (CreateIndex n) =
     (if triples_table db = None then Inl (OperationalError ''no such table'')
      else if n \<in> set (indexes db) then Inl (OperationalError ''index already exists'')
      else Inr ([], db\<lparr>indexes := indexes db @ [n]\<rparr>))"
| "sqlite_run rnd db (DropIndex n) = Inr ([], db\<lparr>indexes := removeAll n (indexes db)\<rparr>)"
| "sqlite_run rnd db DropTable = Inr ([], db\<lparr>triples_table := None, indexes := []\<rparr>)"
| "sqlite_run rnd db s =
     (case triples_table db of
        None \<Rightarrow> Inl (OperationalError ''no such table'')
      | Some rs \<Rightarrow>
          if stmt_table s \<noteq> ''triples_table'' then Inl (OperationalError ''no such table'')
          else
            (case stmt_index s of
               None \<Rightarrow> Inr (sqlite_select rnd rs s, db)
             | Some ix \<Rightarrow>
                 if ix \<in> set (indexes db) then Inr (sqlite_select rnd rs s, db)
                 else Inl (OperationalError ''no such index'')))"

definition sqlite_execute ::
  "(row \<Rightarrow> int) \<Rightarrow> database \<Rightarrow> pystr \<Rightarrow> error + pytuple list \<times> database" where
  "sqlite_execute rnd db q =
     (case sqlite_decode q of
        None \<Rightarrow> Inl (OperationalError ''syntax error'')
      | Some s \<Rightarrow> sqlite_run rnd db s)"

text \<open>
  \<open>executemany\<close> of an \<open>INSERT\<close> with \<open>n\<close> placeholders: the statement is prepared
  against the table, which has four columns, and then run once per parameter tuple, in
  order. For each tuple the module first compares the number of values with the number
  of placeholders (\<open>ProgrammingError\<close>), then binds the values, where an integer that
  does not fit in 64 bits raises \<open>OverflowError\<close>, which is no \<open>sqlite3.Error\<close>, and
  then the engine runs the statement. \<open>faults\<close> marks the tuples on which the engine
  itself fails (a full disk, a locked file), and \<open>affinity c v\<close> is the value the
  engine stores in column \<open>c\<close> for the value \<open>v\<close>, after the conversion of the type
  affinity of the column.
  The rows inserted before a failure stay in the open transaction: the result is the
  database as the connection sees it afterwards, with the error, if any.
\<close>

definition decode_insert :: "pystr \<Rightarrow> (string \<times> nat) option" where
  "decode_insert q =
     (case q of
        [Lit a, Lit t, Lit b, Lit c, Marks n, Lit d, Lit e] \<Rightarrow>
          if a = ''INSERT INTO '' \<and> b = '' VALUES '' \<and> c = ''('' \<and> d = '')'' \<and> e = []
          then Some (t, n)
          else None
      | _ \<Rightarrow> None)"

fun fits_int64 :: "sqlval \<Rightarrow> bool" where
  "fits_int64 (SqlInt i) = (- (2 ^ 63) \<le> i \<and> i < 2 ^ 63)"
| "fits_int64 (SqlText s) = True"

fun bind_row :: "(nat \<Rightarrow> sqlval \<Rightarrow> sqlval) \<Rightarrow> pytuple \<Rightarrow> row option" where
  "bind_row affinity [s, p, ob, t] =
     Some (affinity 0 s, affinity 1 p, affinity 2 ob, affinity 3 t)"
| "bind_row affinity v = None"

fun insert_rows ::
  "(pytuple \<Rightarrow> bool) \<Rightarrow> (nat \<Rightarrow> sqlval \<Rightarrow> sqlval) \<Rightarrow> nat \<Rightarrow> row list \<Rightarrow> pytuple list
     \<Rightarrow> error option \<times> row list" where
  "insert_rows faults affinity n rs [] = (None, rs)"
| "insert_rows faults affinity n rs (v # vs) =
     (if length v \<noteq> n then
        (Some (ProgrammingError ''Incorrect number of bindings supplied''), rs)
      else if \<not> list_all fits_int64 v then
        (Some (OverflowError ''Python int too large to convert to SQLite INTEGER''), rs)
      else if faults v then (Some (OperationalError ''disk I/O error''), rs)
      else
        (case bind_row affinity v of
           None \<Rightarrow> (Some (OperationalError ''table has 4 columns''), rs)
         | Some r \<Rightarrow> insert_rows faults affinity n (rs @ [r]) vs))"

definition sqlite_executemany ::
  "(pytuple \<Rightarrow> bool) \<Rightarrow> (nat \<Rightarrow> sqlval \<Rightarrow> sqlval) \<Rightarrow> database \<Rightarrow> pystr \<Rightarrow> pytuple list
     \<Rightarrow> error option \<times> database" where
  "sqlite_executemany faults affinity db q vs =
     (case decode_insert q of
        None \<Rightarrow> (Some (OperationalError ''syntax error''), db)
      | Some (t, n) \<Rightarrow>
          (case triples_table db of
             None \<Rightarrow> (Some (OperationalError ''no such table''), db)
           | Some rs \<Rightarrow>
               if t \<noteq> ''triples_table'' then (Some (OperationalError ''no such table''), db)
               else if n \<noteq> 4 then (Some (OperationalError ''table has 4 columns''), db)
               else
                 (case insert_rows faults affinity n rs vs of
                    (e, rs') \<Rightarrow> (e, db\<lparr>triples_table := Some rs'\<rparr>))))"

section \<open>The adapter inside its \<open>with\<close> block\<close>

text \<open>
  A connection of \<open>sqlite3\<close>: the database as committed to the file, the database as
  the connection sees it (with the changes of the open transaction), and whether
  \<open>close\<close> was called. The adapter carries its connection and the attribute \<open>batches_count\<close>,
  which is absent (\<open>None\<close>) until \<open>_get_batch\<close> assigns it.
\<close>

record sqlite_connection =
  committed :: database
  visible :: database
  is_closed :: bool

record adapter =
  connection :: sqlite_connection
  batches_count :: "int option"

definition commit :: "sqlite_connection \<Rightarrow> sqlite_connection" where
  "commit c = c\<lparr>committed := visible c\<rparr>"

definition rollback :: "sqlite_connection \<Rightarrow> sqlite_connection" where
  "rollback c = c\<lparr>visible := committed c\<rparr>"

definition close :: "sqlite_connection \<Rightarrow> sqlite_connection" where
  "close c = c\<lparr>is_closed := True\<rparr>"

definition closed_error :: error where
  "closed_error = ProgrammingError ''Cannot operate on a closed database.''"

subsection \<open>\<open>__exit__\<close>\<close>

text \<open>\<open>tb_is_None\<close> tells whether the block was left without an exception. The method
  returns \<open>None\<close>, so an exception of the block goes on to the caller.\<close>

definition SQLiteAdapter_exit :: "adapter \<Rightarrow> bool \<Rightarrow> error option \<times> adapter" where
  "SQLiteAdapter_exit self tb_is_None =
     (if is_closed (connection self) then (Some closed_error, self)
      else if tb_is_None then
        (None, self\<lparr>connection := close (commit (connection self))\<rparr>)
      else (None, self\<lparr>connection := rollback (connection self)\<rparr>))"

subsection \<open>\<open>_execute_query\<close> and \<open>_execute_queries\<close>\<close>

text \<open>
  The method with the engine as a parameter: \<open>run db query\<close> is what \<open>cursor.execute\<close>
  and \<open>fetchall\<close> do with the statement on the database the connection sees, the rows
  and the database afterwards or the exception. The cursor is taken before the \<open>try\<close>;
  \<open>except Error\<close> catches the exceptions of \<open>sqlite3\<close> and lets any other pass;
  \<open>None\<close> is the value of \<open>output\<close> when the statement failed.
\<close>

definition execute_query_on ::
  "(database \<Rightarrow> pystr \<Rightarrow> error + pytuple list \<times> database) \<Rightarrow> adapter \<Rightarrow> pystr
     \<Rightarrow> (error + pytuple list option) \<times> adapter" where
  "execute_query_on run self query =
     (if is_closed (connection self) then (Inl closed_error, self)
      else
        (case run (visible (connection self)) query of
           Inr (output, db) \<Rightarrow>
             (Inr (Some output),
              self\<lparr>connection := commit ((connection self)\<lparr>visible := db\<rparr>)\<rparr>)
         | Inl e \<Rightarrow> if is_sqlite3_Error e then (Inr None, self) else (Inl e, self)))"

text \<open>The method on the engine modelled above.\<close>

definition execute_query ::
  "(row \<Rightarrow> int) \<Rightarrow> adapter \<Rightarrow> pystr \<Rightarrow> (error + pytuple list option) \<times> adapter" where
  "execute_query rnd self query = execute_query_on (sqlite_execute rnd) self query"

fun execute_queries :: "adapter \<Rightarrow> pystr list \<Rightarrow> (error + unit) \<times> adapter" where
  "execute_queries self [] = (Inr (), self)"
| "execute_queries self (query # list_of_queries) =
     (case execute_query (\<lambda>r. 0) self query of
        (Inl e, self') \<Rightarrow> (Inl e, self')
      | (Inr output, self') \<Rightarrow> execute_queries self' list_of_queries)"

subsection \<open>The schema\<close>

definition get_db_schema :: "pystr list" where
  "get_db_schema =
     [[Lit (''CREATE TABLE triples_table (subject integer,'' @ newline @
            ''                                    predicate integer,'' @ newline @
            ''                                    object integer,'' @ newline @
            ''                                    dataset_type text(50)'' @ newline @
            ''                                    );'')],
      [Lit ''CREATE INDEX triples_table_sp_idx ON triples_table (subject, predicate);''],
      [Lit ''CREATE INDEX triples_table_po_idx ON triples_table (predicate, object);''],
      [Lit ''CREATE INDEX triples_table_type_idx ON triples_table (dataset_type);''],
      [Lit ''CREATE INDEX triples_table_sub_obj_idx ON triples_table (subject, object);''],
      [Lit ''CREATE INDEX triples_table_subject_idx ON triples_table (subject);''],
      [Lit ''CREATE INDEX triples_table_object_idx ON triples_table (object);'']]"

definition get_clean_up :: "pystr list" where
  "get_clean_up =
     [[Lit ''drop index IF EXISTS triples_table_po_idx''],
      [Lit ''drop index IF EXISTS triples_table_sp_idx''],
      [Lit ''drop index IF EXISTS triples_table_type_idx''],
      [Lit ''drop table IF EXISTS triples_table'']]"

definition create_database :: "adapter \<Rightarrow> (error + unit) \<times> adapter" where
  "create_database self = execute_queries self get_db_schema"

definition clean_up :: "adapter \<Rightarrow> (error + unit) \<times> adapter" where
  "clean_up self = execute_queries self get_clean_up"

subsection \<open>\<open>_insert_values_to_a_table\<close>\<close>

text \<open>
  The argument \<open>values\<close> by what \<open>np.shape\<close> says of it. \<open>Shaped k rows\<close> has two
  axes, \<open>(N, k)\<close>: an array of \<open>N\<close> rows and \<open>k\<close> columns, where \<open>N\<close> may be zero,
  or a list of \<open>N \<ge> 1\<close> rows of \<open>k\<close> values each. \<open>Unshaped rows\<close> has one axis: a list
  or array of scalars, each of which the method wraps into a tuple of one value, or the
  empty list.
\<close>

datatype pyvalues = Shaped nat "pytuple list" | Unshaped "pytuple list"

fun np_shape_cols :: "pyvalues \<Rightarrow> nat" where
  "np_shape_cols (Shaped k rows) = k"
| "np_shape_cols (Unshaped rows) = 1"

fun rows_of :: "pyvalues \<Rightarrow> pytuple list" where
  "rows_of (Shaped k rows) = rows"
| "rows_of (Unshaped rows) = rows"

text \<open>The cursor is taken before the \<open>try\<close>. An exception of \<open>sqlite3\<close> is caught and
  the transaction rolled back; any other exception leaves the method with neither
  \<open>commit\<close> nor \<open>rollback\<close>.\<close>

definition insert_values_to_a_table ::
  "(pytuple \<Rightarrow> bool) \<Rightarrow> (nat \<Rightarrow> sqlval \<Rightarrow> sqlval) \<Rightarrow> adapter \<Rightarrow> string \<Rightarrow> pyvalues
     \<Rightarrow> (error + unit) \<times> adapter" where
  "insert_values_to_a_table faults affinity self table values =
     (let sz = np_shape_cols values in
      if is_closed (connection self) then (Inl closed_error, self)
      else
        (case str_format [Lit ''({})''] [[Marks sz]] of
           Inl e \<Rightarrow> (Inl e, self)
         | Inr values_placeholder \<Rightarrow>
             (case str_format [Lit ''INSERT INTO {} VALUES {}'']
                     [str_arg table, values_placeholder] of
                Inl e \<Rightarrow> (Inl e, self)
              | Inr query \<Rightarrow>
                  (case sqlite_executemany faults affinity (visible (connection self)) query
                          (rows_of values) of
                     (None, db) \<Rightarrow>
                       (Inr (), self\<lparr>connection := commit ((connection self)\<lparr>visible := db\<rparr>)\<rparr>)
                   | (Some e, db) \<Rightarrow>
                       if is_sqlite3_Error e then
                         (Inr (),
                          self\<lparr>connection := rollback ((connection self)\<lparr>visible := db\<rparr>)\<rparr>)
                       else (Inl e, self\<lparr>connection := (connection self)\<lparr>visible := db\<rparr>\<rparr>)))))"

subsection \<open>\<open>get_indexed_triples\<close>\<close>

text \<open>
  \<open>use_indexer\<close> is a flag or a \<open>DataIndexer\<close>. The class \<open>DataIndexer\<close> is imported
  from another module: its method \<open>get_indexes\<close> is a parameter here, and \<open>mapper\<close> is
  \<open>None\<close> while the attribute \<open>self.mapper\<close> is not assigned. \<open>np.append\<close> along axis
  \<open>1\<close> needs as many rows on both sides. The partition label is one of the three of the
  docstrings.
\<close>

datatype dataset_type = Train | Test | Validation

fun label :: "dataset_type \<Rightarrow> string" where
  "label Train = ''train''"
| "label Test = ''test''"
| "label Validation = ''validation''"

datatype use_indexer = Flag bool | Indexer

definition np_append_column :: "pytuple list \<Rightarrow> sqlval list \<Rightarrow> error + pytuple list" where
  "np_append_column rows col =
     (if length rows = length col then Inr (map2 (\<lambda>r c. r @ [c]) rows col)
      else Inl (ValueError ''all the input array dimensions must match exactly''))"

definition get_indexed_triples ::
  "use_indexer \<Rightarrow> (pytuple list \<Rightarrow> pytuple list) option \<Rightarrow> pytuple list \<Rightarrow> dataset_type
     \<Rightarrow> error + pytuple list" where
  "get_indexed_triples use_indexer mapper chunk dataset_type =
     (if use_indexer \<noteq> Flag False then
        (case mapper of
           None \<Rightarrow> Inl (AttributeError ''mapper'')
         | Some get_indexes \<Rightarrow>
             np_append_column (get_indexes chunk)
               (replicate (length chunk) (SqlText (label dataset_type))))
      else
        np_append_column chunk (replicate (length chunk) (SqlText (label dataset_type))))"

subsection \<open>\<open>get_data_size\<close>\<close>

text \<open>The result of \<open>fetchall\<close> is a list of tuples by its type, so the test of the
  \<open>elif\<close> branch, which asks for exactly that, never holds and the branch that raises
  \<open>ValueError\<close> has no counterpart; \<open>count[0]\<close> and \<open>count[0][0]\<close> raise on an empty
  list or tuple. \<open>None\<close> is the value returned with the message that the table is empty or
  does not exist.\<close>

definition get_data_size ::
  "adapter \<Rightarrow> string \<Rightarrow> pystr \<Rightarrow> (error + sqlval option) \<times> adapter" where
  "get_data_size self table condition =
     (case str_format [Lit ''SELECT count(*) from {} {};''] [str_arg table, condition] of
        Inl e \<Rightarrow> (Inl e, self)
      | Inr query \<Rightarrow>
          (case execute_query (\<lambda>r. 0) self query of
             (Inl e, self') \<Rightarrow> (Inl e, self')
           | (Inr None, self') \<Rightarrow> (Inr None, self')
           | (Inr (Some count), self') \<Rightarrow>
               (case count of
                  [] \<Rightarrow> (Inl (IndexError ''list index out of range''), self')
                | c # cs \<Rightarrow>
                    (case c of
                       [] \<Rightarrow> (Inl (IndexError ''tuple index out of range''), self')
                     | v # vs \<Rightarrow> (Inr (Some v), self')))))"

subsection \<open>The complementary entities\<close>

text \<open>The argument \<open>triples\<close> is indexed as \<open>triples[:,k]\<close>, which a numpy array of
  shape (N,3) supports and a Python list, or \<open>None\<close>, does not.\<close>

datatype pyarg = NdArray "(int \<times> int \<times> int) list" | PyList "pytuple list option"

definition column :: "pyarg \<Rightarrow> nat \<Rightarrow> error + int list" where
  "column triples k =
     (case triples of
        NdArray ts \<Rightarrow>
          Inr (map (\<lambda>(s, p, ob). if k = 0 then s else if k = 1 then p else ob) ts)
      | PyList l \<Rightarrow> Inl (TypeError ''indices must be integers or slices, not tuple''))"

definition objects_literal :: string where
  "objects_literal =
     ''select distinct object from triples_table INDEXED BY triples_table_sp_idx where subject in ({}) and predicate in ({});''"

definition subjects_literal :: string where
  "subjects_literal =
     ''select distinct subject from triples_table INDEXED BY                  triples_table_po_idx where predicate in ({})  and object in ({})''"

definition get_complementary_objects ::
  "adapter \<Rightarrow> pyarg \<Rightarrow> (error + pytuple list option) \<times> adapter" where
  "get_complementary_objects self triples =
     (case column triples 0 of
        Inl e \<Rightarrow> (Inl e, self)
      | Inr ss \<Rightarrow>
          (case column triples 1 of
             Inl e \<Rightarrow> (Inl e, self)
           | Inr ps \<Rightarrow>
               (case str_format [Lit objects_literal] [[Nums ss], [Nums ps]] of
                  Inl e \<Rightarrow> (Inl e, self)
                | Inr query \<Rightarrow> execute_query (\<lambda>r. 0) self query)))"

definition get_complementary_subjects ::
  "adapter \<Rightarrow> pyarg \<Rightarrow> (error + pytuple list option) \<times> adapter" where
  "get_complementary_subjects self triples =
     (case column triples 1 of
        Inl e \<Rightarrow> (Inl e, self)
      | Inr ps \<Rightarrow>
          (case column triples 2 of
             Inl e \<Rightarrow> (Inl e, self)
           | Inr os \<Rightarrow>
               (case str_format [Lit subjects_literal] [[Nums ps], [Nums os]] of
                  Inl e \<Rightarrow> (Inl e, self)
                | Inr query \<Rightarrow> execute_query (\<lambda>r. 0) self query)))"

text \<open>The pair returned is \<open>(subjects, objects)\<close>.\<close>

definition get_complementary_entities ::
  "adapter \<Rightarrow> pyarg
     \<Rightarrow> (error + pytuple list option \<times> pytuple list option) \<times> adapter" where
  "get_complementary_entities self triples =
     (case get_complementary_objects self triples of
        (Inl e, self') \<Rightarrow> (Inl e, self')
      | (Inr objects, self') \<Rightarrow>
          (case get_complementary_subjects self' triples of
             (Inl e, self'') \<Rightarrow> (Inl e, self'')
           | (Inr subjects, self'') \<Rightarrow> (Inr (subjects, objects), self'')))"

subsection \<open>\<open>_get_batch\<close>\<close>

text \<open>\<open>int(size/batch_size)\<close>: the quotient rounded towards zero. (The division is one
  of floating point numbers; its rounding, which shows for counts beyond \<open>2^53\<close>, is not
  modelled.)\<close>

definition int_truediv :: "sqlval option \<Rightarrow> int \<Rightarrow> error + int" where
  "int_truediv sz batch_size =
     (case sz of
        None \<Rightarrow> Inl (TypeError ''unsupported operand type(s) for /'')
      | Some (SqlText s) \<Rightarrow> Inl (TypeError ''unsupported operand type(s) for /'')
      | Some (SqlInt n) \<Rightarrow>
          if batch_size = 0 then Inl ZeroDivisionError
          else Inr (sgn n * sgn batch_size * (\<bar>n\<bar> div \<bar>batch_size\<bar>)))"

definition condition_literal :: string where
  "condition_literal = ''where dataset_type ='' @ quote @ ''{}'' @ quote"

definition msg_literal :: string where
  "msg_literal =
     ''Field index_by can only be used with random set to False and can only take values                    from this set: '' @ backslash @ ''{s,o,so,os,'' @ quote @ quote @ backslash @ ''}, instead got: {}''"

definition page_literal :: string where
  "page_literal =
     ''SELECT * FROM triples_table INDEXED BY                  triples_table_type_idx where dataset_type ='' @ quote @ ''{}'' @ quote @ '' {} LIMIT {}, {}''"

definition random_literal :: string where
  "random_literal =
     ''select * from triples_table INDEXED BY triples_table_type_idx                          where dataset_type = '' @ quote @ ''{}'' @ quote @ '' order by random() limit {}, {};''"

text \<open>The first statement of the generator: \<open>batches_count\<close> is computed when the
  adapter has no such attribute yet, and kept on the adapter.\<close>

definition count_batches :: "adapter \<Rightarrow> int \<Rightarrow> dataset_type \<Rightarrow> (error + int) \<times> adapter" where
  "count_batches self batch_size dataset_type =
     (case batches_count self of
        Some n \<Rightarrow> (Inr n, self)
      | None \<Rightarrow>
          (case str_format [Lit condition_literal] [str_arg (label dataset_type)] of
             Inl e \<Rightarrow> (Inl e, self)
           | Inr condition \<Rightarrow>
               (case get_data_size self ''triples_table'' condition of
                  (Inl e, self') \<Rightarrow> (Inl e, self')
                | (Inr sz, self') \<Rightarrow>
                    (case int_truediv sz batch_size of
                       Inl e \<Rightarrow> (Inl e, self')
                     | Inr n \<Rightarrow> (Inr n, self'\<lparr>batches_count := Some n\<rparr>)))))"

text \<open>The choice of the \<open>ORDER BY\<close> clause. The message of the assertion is built
  first, by \<open>str.format\<close> on a literal that holds the braces \<open>\{\<close> and \<open>\}\<close>.\<close>

definition choose_index :: "string \<Rightarrow> bool \<Rightarrow> error + pystr" where
  "choose_index index_by random =
     (if index_by \<noteq> [] then
        (case str_format [Lit msg_literal] [str_arg index_by] of
           Inl e \<Rightarrow> Inl e
         | Inr msg \<Rightarrow>
             if \<not> ((index_by = ''s'' \<or> index_by = ''o'' \<or> index_by = ''so''
                       \<or> index_by = ''os'') \<and> random = False)
             then Inl (AssertionError ''Field index_by can only be used with random set to False'')
             else Inr (str_arg
                    (if index_by = ''so'' \<or> index_by = ''os'' then ''ORDER BY subject, object''
                     else if index_by = ''o'' then ''ORDER BY object''
                     else if index_by = ''s'' then ''ORDER BY subject''
                     else [])))
      else Inr (str_arg []))"

text \<open>What the generator yields: \<open>out\<close>, or \<open>out\<close> with the participating entities.\<close>

datatype batch =
    Plain "pytuple list option"
  | WithEntities "pytuple list option" "pytuple list option \<times> pytuple list option"

text \<open>A call \<open>self.m(out)\<close> of an attribute found on the class, with the result of
  \<open>_execute_query\<close> as its argument. Of the methods of the class, the resolver is the
  one that takes a batch.\<close>

definition call_method ::
  "adapter \<Rightarrow> string \<Rightarrow> pytuple list option
     \<Rightarrow> (error + pytuple list option \<times> pytuple list option) \<times> adapter" where
  "call_method self m out =
     (if m = ''_get_complementary_entities'' then get_complementary_entities self (PyList out)
      else (Inl (TypeError ''unexpected positional argument''), self))"

text \<open>One turn of the loop \<open>for i in range(self.batches_count)\<close>: the batch yielded or
  the exception raised, the value of the variable \<open>query\<close> afterwards, and the adapter.
  \<open>rnd\<close> gives the random numbers of the statement run in this turn.\<close>

definition batch_step ::
  "(row \<Rightarrow> int) \<Rightarrow> int \<Rightarrow> dataset_type \<Rightarrow> bool \<Rightarrow> bool \<Rightarrow> pystr \<Rightarrow> nat \<Rightarrow> pystr \<Rightarrow> adapter
     \<Rightarrow> (error + batch) \<times> pystr \<times> adapter" where
  "batch_step rnd batch_size dataset_type random use_filter index i query self =
     (case str_format query
             [str_arg (label dataset_type), index, int_arg (int i * batch_size),
              int_arg batch_size] of
        Inl e \<Rightarrow> (Inl e, query, self)
      | Inr query1 \<Rightarrow>
          (case (if random then
                   str_format [Lit random_literal]
                     [str_arg (label dataset_type), int_arg (int i * batch_size),
                      int_arg batch_size]
                 else Inr query1) of
             Inl e \<Rightarrow> (Inl e, query1, self)
           | Inr query2 \<Rightarrow>
               (case execute_query rnd self query2 of
                  (Inl e, self') \<Rightarrow> (Inl e, query2, self')
                | (Inr out, self') \<Rightarrow>
                    if use_filter then
                      (case class_getattr ''get_complementary_entities'' of
                         Inl e \<Rightarrow> (Inl e, query2, self')
                       | Inr m \<Rightarrow>
                           (case call_method self' m out of
                              (Inl e, self'') \<Rightarrow> (Inl e, query2, self'')
                            | (Inr participating_entities, self'') \<Rightarrow>
                                (Inr (WithEntities out participating_entities), query2, self'')))
                    else (Inr (Plain out), query2, self'))))"

text \<open>The loop over the indices of \<open>range(self.batches_count)\<close>: the batches yielded in
  order, the exception that ended the generator, if any, and the adapter at the end.\<close>

fun batch_loop ::
  "(nat \<Rightarrow> row \<Rightarrow> int) \<Rightarrow> int \<Rightarrow> dataset_type \<Rightarrow> bool \<Rightarrow> bool \<Rightarrow> pystr \<Rightarrow> nat list \<Rightarrow> pystr
     \<Rightarrow> adapter \<Rightarrow> batch list \<times> error option \<times> adapter" where
  "batch_loop rnd batch_size dataset_type random use_filter index [] query self =
     ([], None, self)"
| "batch_loop rnd batch_size dataset_type random use_filter index (i # is) query self =
     (case batch_step (rnd i) batch_size dataset_type random use_filter index i query self of
        (Inl e, query', self') \<Rightarrow> ([], Some e, self')
      | (Inr b, query', self') \<Rightarrow>
          (case batch_loop rnd batch_size dataset_type random use_filter index is query' self'
           of (bs, r, self'') \<Rightarrow> (b # bs, r, self'')))"

text \<open>The generator run to its end. \<open>rnd i\<close> gives the random numbers of page \<open>i\<close>.\<close>

definition get_batch ::
  "(nat \<Rightarrow> row \<Rightarrow> int) \<Rightarrow> adapter \<Rightarrow> int \<Rightarrow> dataset_type \<Rightarrow> bool \<Rightarrow> bool \<Rightarrow> string
     \<Rightarrow> batch list \<times> error option \<times> adapter" where
  "get_batch rnd self batch_size dataset_type random use_filter index_by =
     (case count_batches self batch_size dataset_type of
        (Inl e, self') \<Rightarrow> ([], Some e, self')
      | (Inr n, self') \<Rightarrow>
          (case choose_index index_by random of
             Inl e \<Rightarrow> ([], Some e, self')
           | Inr index \<Rightarrow>
               batch_loop rnd batch_size dataset_type random use_filter index [0..<nat n]
                 [Lit page_literal] self'))"

section \<open>The claims read from the specification, and example states\<close>

text \<open>
  The specification describes the resolver by pairs: the objects of the rows that share
  a (subject, predicate) pair with a triple of the batch, and the subjects of the rows
  that share a (predicate, object) pair with one. These two definitions follow that
  wording, to be compared with the statements the adapter sends.
\<close>

definition spec_complementary_objects :: "row list \<Rightarrow> (int \<times> int \<times> int) list \<Rightarrow> sqlval set" where
  "spec_complementary_objects rs ts =
     {col_object r | r t.
        r \<in> set rs \<and> t \<in> set ts \<and> col_subject r = SqlInt (fst t)
        \<and> col_predicate r = SqlInt (fst (snd t))}"

definition spec_complementary_subjects :: "row list \<Rightarrow> (int \<times> int \<times> int) list \<Rightarrow> sqlval set" where
  "spec_complementary_subjects rs ts =
     {col_subject r | r t.
        r \<in> set rs \<and> t \<in> set ts \<and> col_predicate r = SqlInt (fst (snd t))
        \<and> col_object r = SqlInt (snd (snd t))}"

text \<open>The output of one batch, with or without the participating entities.\<close>

fun batch_out :: "batch \<Rightarrow> pytuple list option" where
  "batch_out (Plain out) = out"
| "batch_out (WithEntities out pe) = out"


definition no_random_pages :: "nat \<Rightarrow> row \<Rightarrow> int" where
  "no_random_pages i r = 0"

definition no_faults :: "pytuple \<Rightarrow> bool" where
  "no_faults v = False"

text \<open>The table of the example of the specification, in partition \<open>train\<close>.\<close>

definition example_rows :: "row list" where
  "example_rows =
     [(SqlInt 1, SqlInt 10, SqlInt 2, SqlText ''train''),
      (SqlInt 3, SqlInt 10, SqlInt 2, SqlText ''train''),
      (SqlInt 1, SqlInt 10, SqlInt 4, SqlText ''train'')]"

text \<open>The database the schema makes, holding the given rows, or the database without
  the table; and an adapter with an open connection on it and no open transaction.\<close>

definition database_of :: "row list option \<Rightarrow> database" where
  "database_of t =
     \<lparr>triples_table = t,
      indexes = (case t of None \<Rightarrow> [] | Some rs \<Rightarrow> map fst schema_indexes)\<rparr>"

definition adapter_on :: "row list option \<Rightarrow> adapter" where
  "adapter_on t =
     \<lparr>connection = \<lparr>committed = database_of t, visible = database_of t, is_closed = False\<rparr>,
      batches_count = None\<rparr>"

definition example_adapter :: adapter where
  "example_adapter = adapter_on (Some example_rows)"

definition example_init_args :: init_args where
  "example_init_args =
     \<lparr>arg_db_name = ''database.db'', arg_chunk_size = None, arg_root_directory = ''./'',
      arg_use_indexer = PyBool True, arg_verbose = PyBool False, arg_remap = PyBool False,
      arg_name = PyStr ''main_partition'', arg_parent = PyNone,
      arg_in_memory = PyBool False\<rparr>"

text \<open>An engine that fails on one given tuple; the affinity on values that have the
  type of their column already, integers in the first three columns and text in the
  fourth, which are stored as they are; and a chunk of two rows of such values.\<close>

definition no_conversion :: "nat \<Rightarrow> sqlval \<Rightarrow> sqlval" where
  "no_conversion c v = v"




text \<open>A chunk whose second row holds an integer beyond 64 bits.\<close>

definition overflow_chunk :: "pytuple list" where
  "overflow_chunk =
     [[SqlInt 5, SqlInt 10, SqlInt 6, SqlText ''train''],
      [SqlInt (2 ^ 63), SqlInt 10, SqlInt 8, SqlText ''train'']]"

text \<open>A table and a batch on which the two readings of the resolver differ.\<close>

definition crossed_rows :: "row list" where
  "crossed_rows = [(SqlInt 1, SqlInt 11, SqlInt 7, SqlText ''train'')]"

definition crossed_batch :: "(int \<times> int \<times> int) list" where
  "crossed_batch = [(1, 10, 2), (3, 11, 4)]"

text \<open>A table with rows of two partitions.\<close>

definition mixed_rows :: "row list" where
  "mixed_rows =
     [(SqlInt 1, SqlInt 10, SqlInt 2, SqlText ''train''),
      (SqlInt 3, SqlInt 10, SqlInt 2, SqlText ''train''),
      (SqlInt 1, SqlInt 10, SqlInt 2, SqlText ''test'')]"

text \<open>The statement of a page as the generator sends it, for a label, an offset and a
  limit, without and with random order; and the values the variable \<open>query\<close> of the
  generator takes for a partition.\<close>

definition page_query :: "string \<Rightarrow> int \<Rightarrow> int \<Rightarrow> pystr" where
  "page_query l x y =
     [Lit page_head, Lit l, Lit (quote @ '' ''), Lit [], Lit '' LIMIT '', Num x, Lit '', '',
      Num y, Lit []]"

definition random_query :: "string \<Rightarrow> int \<Rightarrow> int \<Rightarrow> pystr" where
  "random_query l x y =
     [Lit random_head, Lit l, Lit (quote @ '' order by random() limit ''), Num x, Lit '', '',
      Num y, Lit '';'']"

definition page_statement :: "dataset_type \<Rightarrow> pystr \<Rightarrow> bool" where
  "page_statement d q \<longleftrightarrow>
     q = [Lit page_literal] \<or> (\<exists>x y. q = page_query (label d) x y)
     \<or> (\<exists>x y. q = random_query (label d) x y)"

definition labelled :: "dataset_type \<Rightarrow> pytuple \<Rightarrow> bool" where
  "labelled d v \<longleftrightarrow> (\<exists>r. v = as_tuple r \<and> col_dataset_type r = SqlText (label d))"

definition labelled_page :: "dataset_type \<Rightarrow> pytuple list option \<Rightarrow> bool" where
  "labelled_page d out \<longleftrightarrow> (\<forall>page. out = Some page \<longrightarrow> (\<forall>v\<in>set page. labelled d v))"

section \<open>The constructor\<close>

text \<open>
  Claim C10. Constructing the adapter with \<open>chunk_size = None\<close> raises in \<open>__init__\<close>
  and never assigns the attribute \<open>chunk_size\<close>: the branch evaluates
  \<open>self.__name__()\<close>, which no instance has, so when the assertion on \<open>remap\<close> holds the
  exception is that \<open>AttributeError\<close>. The default of 30000 is taken when the argument
  is left out of the call: the constructor then returns, with the attributes of the
  failed call and \<open>chunk_size = 30000\<close>.
\<close>

theorem init_chunk_size_None_raises:
  "(\<exists>e. fst (SQLiteAdapter_init (args\<lparr>arg_chunk_size := Some PyNone\<rparr>)) = Some e)
   \<and> snd (SQLiteAdapter_init (args\<lparr>arg_chunk_size := Some PyNone\<rparr>)) ''chunk_size'' = None
   \<and> (py_eq_False (arg_remap args) \<longrightarrow>
        fst (SQLiteAdapter_init (args\<lparr>arg_chunk_size := Some PyNone\<rparr>))
          = Some (AttributeError ''__name__'')
        \<and> SQLiteAdapter_init (args\<lparr>arg_chunk_size := None\<rparr>)
          = (None, (snd (SQLiteAdapter_init (args\<lparr>arg_chunk_size := Some PyNone\<rparr>)))
                     (''chunk_size'' \<mapsto> PyInt 30000)))"
proof -
  have no_name: "class_getattr ''__name__'' = Inl (AttributeError ''__name__'')"
    by (simp add: class_getattr_def SQLiteAdapter_methods_def object_attributes_def)
  show ?thesis
    by (simp add: SQLiteAdapter_init_def Let_def getattr_def no_name DEFAULT_CHUNKSIZE_def)
qed

theorem init_chunk_size_None_raises_witness:
  "py_eq_False (arg_remap example_init_args)
   \<and> fst (SQLiteAdapter_init (example_init_args\<lparr>arg_chunk_size := Some PyNone\<rparr>))
       = Some (AttributeError ''__name__'')
   \<and> snd (SQLiteAdapter_init (example_init_args\<lparr>arg_chunk_size := Some PyNone\<rparr>))
       ''chunk_size'' = None
   \<and> snd (SQLiteAdapter_init (example_init_args\<lparr>arg_chunk_size := None\<rparr>)) ''chunk_size''
       = Some (PyInt 30000)"
proof -
  have h: "py_eq_False (arg_remap example_init_args)"
    by (simp add: example_init_args_def py_eq_False_def)
  show ?thesis
    using h init_chunk_size_None_raises [of example_init_args] by simp
qed

section \<open>Leaving the \<open>with\<close> block\<close>

text \<open>
  Claim C4 asks that the connection is released on every exit path. When the block is
  left with an exception, \<open>__exit__\<close> rolls the open transaction back and returns with
  the connection still open: on the example adapter with its rows deleted in the open
  transaction, the rows are back and \<open>is_closed\<close> is still false, while the exit without
  an exception commits the deletion and closes.
\<close>

theorem exit_with_exception_leaves_connection_open:
  "SQLiteAdapter_exit
     (example_adapter\<lparr>connection :=
        (connection example_adapter)\<lparr>visible := database_of (Some [])\<rparr>\<rparr>) False
     = (None, example_adapter)
   \<and> \<not> is_closed (connection example_adapter)
   \<and> SQLiteAdapter_exit
       (example_adapter\<lparr>connection :=
          (connection example_adapter)\<lparr>visible := database_of (Some [])\<rparr>\<rparr>) True
     = (None, adapter_on (Some [])\<lparr>connection := (connection (adapter_on (Some [])))\<lparr>is_closed := True\<rparr>\<rparr>)"
  by (simp add: SQLiteAdapter_exit_def example_adapter_def adapter_on_def rollback_def
      commit_def close_def)

section \<open>The row count\<close>

text \<open>
  Claim C9 asks that a count on a table that does not exist returns the sentinel, that
  a malformed condition is a failure raised to the caller, and that the two can be told
  apart. On the example adapter the condition \<open>where\<close>, which is no condition, gives
  the same \<open>None\<close> as the count on a database without the table, and nothing is raised;
  a count without condition gives the three rows.
\<close>

theorem get_data_size_malformed_condition_returns_None:
  "get_data_size example_adapter ''triples_table'' [Lit ''where''] = (Inr None, example_adapter)
   \<and> get_data_size (adapter_on None) ''triples_table'' [Lit []] = (Inr None, adapter_on None)
   \<and> get_data_size example_adapter ''triples_table'' [Lit []]
       = (Inr (Some (SqlInt 3)), example_adapter)"
  by code_simp

section \<open>The batch generator on the example\<close>

text \<open>
  Claim C1 asks, among other things, that no row is repeated across the pages of one
  iteration without random order. The loop assigns the formatted statement to the
  variable that held the template, so from the second turn on \<open>format\<close> finds no field
  to fill and the statement of page 0 is sent again: on the three rows of the example,
  with batches of one row, the generator yields the first row three times.
\<close>

theorem get_batch_repeats_first_page:
  "fst (get_batch no_random_pages example_adapter 1 Train False False []) =
     [Plain (Some [[SqlInt 1, SqlInt 10, SqlInt 2, SqlText ''train'']]),
      Plain (Some [[SqlInt 1, SqlInt 10, SqlInt 2, SqlText ''train'']]),
      Plain (Some [[SqlInt 1, SqlInt 10, SqlInt 2, SqlText ''train'']])]"
  by code_simp

text \<open>
  Claim C7 asks that with \<open>use_filter\<close> every batch comes with the output of the
  resolver. The generator calls \<open>self.get_complementary_entities\<close>, a name the class does
  not define (the resolver is \<open>_get_complementary_entities\<close>): on the example the first
  turn of the loop raises \<open>AttributeError\<close> and no batch is yielded.
\<close>

theorem get_batch_use_filter_raises:
  "get_batch no_random_pages example_adapter 1 Train False True [] =
     ([], Some (AttributeError ''get_complementary_entities''),
      example_adapter\<lparr>batches_count := Some 3\<rparr>)"
  by code_simp

text \<open>
  Claim C8 asks that an ordering together with \<open>random = True\<close> is refused as an invalid
  configuration and that the orderings \<open>s\<close>, \<open>o\<close>, \<open>so\<close>, \<open>os\<close> are accepted without
  random order. The message of the assertion is formatted before the assertion is
  tested, and its literal holds the braces of \<open>\{s,o,so,os,''\}\<close>, which \<open>format\<close> reads as
  a field with that name: every call with an ordering raises \<open>KeyError\<close>, with and
  without random order, and yields nothing.
\<close>

theorem get_batch_index_by_raises_KeyError:
  "get_batch no_random_pages example_adapter 1 Train False False ''s'' =
     ([], Some (KeyError (''s,o,so,os,'' @ quote @ quote @ backslash)),
      example_adapter\<lparr>batches_count := Some 3\<rparr>)
   \<and> get_batch no_random_pages example_adapter 1 Train True False ''s'' =
     ([], Some (KeyError (''s,o,so,os,'' @ quote @ quote @ backslash)),
      example_adapter\<lparr>batches_count := Some 3\<rparr>)"
  by code_simp

section \<open>The query executor\<close>

text \<open>The statements of the schema, run on a database without the table, make the
  database that \<open>database_of\<close> describes, and the statements of the clean-up remove it
  again; each statement is committed as it is run.\<close>

lemma create_database_makes_schema:
  "create_database (adapter_on None) = (Inr (), adapter_on (Some []))"
  by code_simp

lemma clean_up_drops_schema:
  "clean_up example_adapter = (Inr (), adapter_on None)"
  by code_simp

text \<open>The engine modelled here raises errors of \<open>sqlite3\<close> only.\<close>

lemma sqlite_run_error_is_sqlite3:
  "sqlite_run rnd db s = Inl e \<Longrightarrow> is_sqlite3_Error e"
  by (cases s) (auto split: option.splits if_splits)

lemma sqlite_execute_error_is_sqlite3:
  "sqlite_execute rnd db q = Inl e \<Longrightarrow> is_sqlite3_Error e"
  by (auto simp: sqlite_execute_def split: option.splits dest: sqlite_run_error_is_sqlite3)




section \<open>The bulk writer\<close>










text \<open>
  Outside the amended claim: an integer of the chunk that does not fit in 64 bits
  raises \<open>OverflowError\<close> when it is bound. The method catches the exceptions of
  \<open>sqlite3\<close> only, so this one reaches the caller, and since neither \<open>commit\<close> nor
  \<open>rollback\<close> is called the rows bound before it stay in the open transaction.
\<close>

lemma insert_values_overflow_escapes:
  "insert_values_to_a_table no_faults no_conversion example_adapter ''triples_table''
       (Shaped 4 overflow_chunk)
     = (Inl (OverflowError ''Python int too large to convert to SQLite INTEGER''),
        example_adapter\<lparr>connection := (connection example_adapter)\<lparr>visible :=
          database_of
            (Some (example_rows @ [(SqlInt 5, SqlInt 10, SqlInt 6, SqlText ''train'')]))\<rparr>\<rparr>)"
  by code_simp

section \<open>The complementary entities\<close>

lemma commit_commit: "commit (commit c) = commit c"
  by (simp add: commit_def)

lemma format_objects_literal:
  "str_format [Lit objects_literal] [[Nums ss], [Nums ps]]
     = Inr [Lit objects_head, Nums ss, Lit '') and predicate in ('', Nums ps, Lit '');'']"
  by (simp add: str_format_def objects_literal_def objects_head_def resolve_def)

lemma format_subjects_literal:
  "str_format [Lit subjects_literal] [[Nums ps], [Nums os]]
     = Inr [Lit subjects_head, Nums ps, Lit '')  and object in ('', Nums os, Lit '')'']"
  by (simp add: str_format_def subjects_literal_def subjects_head_def resolve_def)

lemma execute_objects:
  "triples_table db = Some rs \<Longrightarrow> ''triples_table_sp_idx'' \<in> set (indexes db) \<Longrightarrow>
   sqlite_execute rnd db
       [Lit objects_head, Nums ss, Lit '') and predicate in ('', Nums ps, Lit '');'']
     = Inr (sqlite_select rnd rs (SelectObjects ss ps), db)"
  by (simp add: sqlite_execute_def sqlite_decode_def decode_page_def decode_random_def
      decode_count_def decode_objects_def)

lemma execute_subjects:
  "triples_table db = Some rs \<Longrightarrow> ''triples_table_po_idx'' \<in> set (indexes db) \<Longrightarrow>
   sqlite_execute rnd db
       [Lit subjects_head, Nums ps, Lit '')  and object in ('', Nums os, Lit '')'']
     = Inr (sqlite_select rnd rs (SelectSubjects ps os), db)"
  by (simp add: sqlite_execute_def sqlite_decode_def decode_page_def decode_random_def
      decode_count_def decode_objects_def decode_subjects_def)

lemma column_NdArray:
  "column (NdArray ts) 0 = Inr (map fst ts)"
  "column (NdArray ts) 1 = Inr (map (\<lambda>t. fst (snd t)) ts)"
  "column (NdArray ts) (Suc 0) = Inr (map (\<lambda>t. fst (snd t)) ts)"
  "column (NdArray ts) 2 = Inr (map (\<lambda>t. snd (snd t)) ts)"
  by (simp_all add: column_def case_prod_beta)

lemma get_complementary_entities_open:
  assumes "\<not> is_closed (connection self)"
    and "triples_table (visible (connection self)) = Some rs"
    and "''triples_table_sp_idx'' \<in> set (indexes (visible (connection self)))"
    and "''triples_table_po_idx'' \<in> set (indexes (visible (connection self)))"
  shows "get_complementary_entities self (NdArray ts)
     = (Inr (Some (sqlite_select (\<lambda>r. 0) rs
                     (SelectSubjects (map (\<lambda>t. fst (snd t)) ts) (map (\<lambda>t. snd (snd t)) ts))),
             Some (sqlite_select (\<lambda>r. 0) rs
                     (SelectObjects (map fst ts) (map (\<lambda>t. fst (snd t)) ts)))),
        self\<lparr>connection := commit (connection self)\<rparr>)"
proof -
  have ob: "get_complementary_objects self (NdArray ts)
     = (Inr (Some (sqlite_select (\<lambda>r. 0) rs
                     (SelectObjects (map fst ts) (map (\<lambda>t. fst (snd t)) ts)))),
        self\<lparr>connection := commit (connection self)\<rparr>)"
    using assms
    by (simp add: get_complementary_objects_def column_NdArray format_objects_literal
        execute_query_def execute_query_on_def execute_objects)
  have su: "get_complementary_subjects (self\<lparr>connection := commit (connection self)\<rparr>)
        (NdArray ts)
     = (Inr (Some (sqlite_select (\<lambda>r. 0) rs
                     (SelectSubjects (map (\<lambda>t. fst (snd t)) ts) (map (\<lambda>t. snd (snd t)) ts)))),
        self\<lparr>connection := commit (connection self)\<rparr>)"
    using assms
    by (simp add: get_complementary_subjects_def column_NdArray format_subjects_literal
        execute_query_def execute_query_on_def execute_subjects commit_def)
  show ?thesis
    by (simp add: get_complementary_entities_def ob su)
qed

text \<open>
  Claim C5 says that the resolver returns the objects that share a (subject, predicate)
  pair with the batch. The statement tests the subject and the predicate of a row
  against two separate lists: with the row (1,11,7) in the table and the batch
  (1,10,2), (3,11,4) it returns the object 7, though no triple of the batch has the
  pair (1,11) and the set the claim describes is empty.
\<close>

theorem complementary_objects_cross_pairs:
  "fst (get_complementary_entities (adapter_on (Some crossed_rows)) (NdArray crossed_batch))
     = Inr (Some [], Some [[SqlInt 7]])
   \<and> spec_complementary_objects crossed_rows crossed_batch = {}"
proof -
  have "fst (get_complementary_entities (adapter_on (Some crossed_rows)) (NdArray crossed_batch))
     = Inr (Some [], Some [[SqlInt 7]])"
    by code_simp
  moreover have "spec_complementary_objects crossed_rows crossed_batch = {}"
    by (auto simp: spec_complementary_objects_def crossed_rows_def crossed_batch_def
        col_subject_def col_predicate_def)
  ultimately show ?thesis by simp
qed

text \<open>
  Claim C5 as amended. For every batch of triples, on an open connection with the table
  and the two indexes the statements name present, the resolver returns the distinct objects of the rows whose subject is the
  subject of some triple of the batch and whose predicate is the predicate of some
  triple of the batch, and the distinct subjects of the rows whose predicate and object
  are the predicate of some triple and the object of some triple of the batch. These
  include the objects and subjects that share a pair with a triple of the batch and are
  exactly those when the batch is one triple. The witness is the example of the claim:
  objects 2 and 4, subjects 1 and 3.
\<close>

theorem complementary_entities_by_membership:
  assumes "\<not> is_closed (connection self)"
    and "triples_table (visible (connection self)) = Some rs"
    and "''triples_table_sp_idx'' \<in> set (indexes (visible (connection self)))"
    and "''triples_table_po_idx'' \<in> set (indexes (visible (connection self)))"
  shows "\<exists>subjects objects.
     get_complementary_entities self (NdArray ts)
       = (Inr (Some subjects, Some objects), self\<lparr>connection := commit (connection self)\<rparr>)
     \<and> distinct objects \<and> distinct subjects
     \<and> set objects = (\<lambda>r. [col_object r]) `
         {r \<in> set rs. col_subject r \<in> (\<lambda>t. SqlInt (fst t)) ` set ts
            \<and> col_predicate r \<in> (\<lambda>t. SqlInt (fst (snd t))) ` set ts}
     \<and> set subjects = (\<lambda>r. [col_subject r]) `
         {r \<in> set rs. col_predicate r \<in> (\<lambda>t. SqlInt (fst (snd t))) ` set ts
            \<and> col_object r \<in> (\<lambda>t. SqlInt (snd (snd t))) ` set ts}
     \<and> (\<lambda>v. [v]) ` spec_complementary_objects rs ts \<subseteq> set objects
     \<and> (\<lambda>v. [v]) ` spec_complementary_subjects rs ts \<subseteq> set subjects
     \<and> (length ts = 1 \<longrightarrow>
          set objects = (\<lambda>v. [v]) ` spec_complementary_objects rs ts
          \<and> set subjects = (\<lambda>v. [v]) ` spec_complementary_subjects rs ts)"
proof -
  let ?objects = "sqlite_select (\<lambda>r. 0) rs
                     (SelectObjects (map fst ts) (map (\<lambda>t. fst (snd t)) ts))"
  let ?subjects = "sqlite_select (\<lambda>r. 0) rs
                     (SelectSubjects (map (\<lambda>t. fst (snd t)) ts) (map (\<lambda>t. snd (snd t)) ts))"
  have d1: "distinct ?objects" by (simp add: distinct_map inj_on_def)
  have d2: "distinct ?subjects" by (simp add: distinct_map inj_on_def)
  have s1: "set ?objects = (\<lambda>r. [col_object r]) `
         {r \<in> set rs. col_subject r \<in> (\<lambda>t. SqlInt (fst t)) ` set ts
            \<and> col_predicate r \<in> (\<lambda>t. SqlInt (fst (snd t))) ` set ts}"
    by (simp add: image_image)
  have s2: "set ?subjects = (\<lambda>r. [col_subject r]) `
         {r \<in> set rs. col_predicate r \<in> (\<lambda>t. SqlInt (fst (snd t))) ` set ts
            \<and> col_object r \<in> (\<lambda>t. SqlInt (snd (snd t))) ` set ts}"
    by (simp add: image_image)
  have sub1: "(\<lambda>v. [v]) ` spec_complementary_objects rs ts \<subseteq> set ?objects"
    unfolding s1 spec_complementary_objects_def by blast
  have sub2: "(\<lambda>v. [v]) ` spec_complementary_subjects rs ts \<subseteq> set ?subjects"
    unfolding s2 spec_complementary_subjects_def by blast
  have one: "length ts = 1 \<longrightarrow>
          set ?objects = (\<lambda>v. [v]) ` spec_complementary_objects rs ts
          \<and> set ?subjects = (\<lambda>v. [v]) ` spec_complementary_subjects rs ts"
  proof
    assume "length ts = 1"
    then obtain t where t: "ts = [t]" by (cases ts) auto
    then have only: "\<And>u. u \<in> set ts \<Longrightarrow> u = t" and mem: "t \<in> set ts" by simp_all
    have "set ?objects \<subseteq> (\<lambda>v. [v]) ` spec_complementary_objects rs ts"
      unfolding s1 spec_complementary_objects_def using only mem by blast
    moreover have "set ?subjects \<subseteq> (\<lambda>v. [v]) ` spec_complementary_subjects rs ts"
      unfolding s2 spec_complementary_subjects_def using only mem by blast
    ultimately show "set ?objects = (\<lambda>v. [v]) ` spec_complementary_objects rs ts
          \<and> set ?subjects = (\<lambda>v. [v]) ` spec_complementary_subjects rs ts"
      using sub1 sub2 by blast
  qed
  from get_complementary_entities_open [OF assms, of ts] d1 d2 s1 s2 sub1 sub2 one
  show ?thesis by blast
qed

theorem complementary_entities_by_membership_witness:
  "\<not> is_closed (connection example_adapter)
   \<and> triples_table (visible (connection example_adapter)) = Some example_rows
   \<and> ''triples_table_sp_idx'' \<in> set (indexes (visible (connection example_adapter)))
   \<and> ''triples_table_po_idx'' \<in> set (indexes (visible (connection example_adapter)))
   \<and> get_complementary_entities example_adapter (NdArray [(1, 10, 2)])
       = (Inr (Some [[SqlInt 1], [SqlInt 3]], Some [[SqlInt 2], [SqlInt 4]]), example_adapter)"
proof -
  have h1: "\<not> is_closed (connection example_adapter)"
    by (simp add: example_adapter_def adapter_on_def)
  have h2: "triples_table (visible (connection example_adapter)) = Some example_rows"
    by (simp add: example_adapter_def adapter_on_def database_of_def)
  have h3: "''triples_table_sp_idx'' \<in> set (indexes (visible (connection example_adapter)))"
    by (simp add: example_adapter_def adapter_on_def database_of_def schema_indexes_def)
  have h4: "''triples_table_po_idx'' \<in> set (indexes (visible (connection example_adapter)))"
    by (simp add: example_adapter_def adapter_on_def database_of_def schema_indexes_def)
  have e: "get_complementary_entities example_adapter (NdArray [(1, 10, 2)])
       = (Inr (Some [[SqlInt 1], [SqlInt 3]], Some [[SqlInt 2], [SqlInt 4]]), example_adapter)"
    by code_simp
  from complementary_entities_by_membership [OF h1 h2 h3 h4, of "[(1, 10, 2)]"] h1 h2 h3 h4 e
  show ?thesis by simp
qed

section \<open>Partition isolation\<close>

lemma py_scan_plain:
  "CHR ''{'' \<notin> set s \<Longrightarrow> CHR ''}'' \<notin> set s \<Longrightarrow>
     py_scan args Outside k acc s = Inr ([Lit (acc @ s)], k)"
  by (induction s arbitrary: acc) auto

lemma label_plain: "CHR ''{'' \<notin> set (label d) \<and> CHR ''}'' \<notin> set (label d)"
  by (cases d) simp_all

lemma label_inj: "label d = label d' \<Longrightarrow> d = d'"
  by (cases d; cases d') simp_all

lemma format_page_literal:
  "str_format [Lit page_literal] [str_arg l, [Lit []], int_arg x, int_arg y]
     = Inr (page_query l x y)"
  by (simp add: str_format_def page_literal_def page_query_def page_head_def quote_def
      resolve_def str_arg_def int_arg_def)

lemma format_random_literal:
  "str_format [Lit random_literal] [str_arg l, int_arg x, int_arg y] = Inr (random_query l x y)"
  by (simp add: str_format_def random_literal_def random_query_def random_head_def quote_def
      resolve_def str_arg_def int_arg_def)

lemma format_page_query:
  "str_format (page_query (label d) x y) args = Inr (page_query (label d) x y)"
  by (simp add: str_format_def page_query_def py_scan_plain label_plain page_head_def quote_def)

lemma format_random_query:
  "str_format (random_query (label d) x y) args = Inr (random_query (label d) x y)"
  by (simp add: str_format_def random_query_def py_scan_plain label_plain random_head_def
      quote_def)

lemma format_msg_literal:
  "str_format [Lit msg_literal] [[Lit index_by]]
     = Inl (KeyError (''s,o,so,os,'' @ quote @ quote @ backslash))"
  by (simp add: str_format_def msg_literal_def quote_def backslash_def resolve_def digit_val_def)

lemma choose_index_Inr: "choose_index index_by random = Inr ix \<Longrightarrow> ix = [Lit []]"
  by (auto simp: choose_index_def format_msg_literal str_arg_def split: if_splits)

lemma decode_page_query:
  "sqlite_decode (page_query l x y) = Some (SelectPage l Unordered x y)"
  by (simp add: sqlite_decode_def decode_page_def page_query_def order_of_index_def)

lemma decode_random_query:
  "sqlite_decode (random_query l x y) = Some (SelectRandom l x y)"
  by (simp add: sqlite_decode_def decode_page_def decode_random_def random_query_def)

lemma set_sql_limit: "set (sql_limit x y zs) \<subseteq> set zs"
  by (auto simp: sql_limit_def Let_def dest: in_set_takeD in_set_dropD)

lemma limited_rows_labelled:
  assumes "v \<in> set (map as_tuple (sql_limit x y zs))"
    and "\<forall>r\<in>set zs. col_dataset_type r = SqlText (label d)"
  shows "labelled d v"
proof -
  from assms(1) obtain r where r: "r \<in> set (sql_limit x y zs)" and v: "v = as_tuple r"
    by auto
  from r set_sql_limit [of x y zs] have "r \<in> set zs" by blast
  with assms(2) have "col_dataset_type r = SqlText (label d)" by blast
  with v show ?thesis unfolding labelled_def by blast
qed

lemma execute_query_page_labelled:
  assumes "execute_query rnd self (page_query (label d) x y) = (Inr out, self')"
  shows "labelled_page d out"
proof (cases out)
  case None
  then show ?thesis by (simp add: labelled_page_def)
next
  case (Some page)
  with assms obtain rs where "page = map as_tuple
          (sql_limit x y (filter (\<lambda>r. col_dataset_type r = SqlText (label d)) rs))"
    by (auto simp: execute_query_def execute_query_on_def sqlite_execute_def
        decode_page_query split: if_splits option.splits sum.splits)
  with Some have "\<And>page v. out = Some page \<Longrightarrow> v \<in> set page \<Longrightarrow> labelled d v"
    by (rule_tac limited_rows_labelled) auto
  then show ?thesis
    unfolding labelled_page_def by blast
qed

lemma execute_query_random_labelled:
  assumes "execute_query rnd self (random_query (label d) x y) = (Inr out, self')"
  shows "labelled_page d out"
proof (cases out)
  case None
  then show ?thesis by (simp add: labelled_page_def)
next
  case (Some page)
  with assms obtain rs where "page = map as_tuple
          (sql_limit x y
             (sort_key rnd (filter (\<lambda>r. col_dataset_type r = SqlText (label d)) rs)))"
    by (auto simp: execute_query_def execute_query_on_def sqlite_execute_def
        decode_random_query split: if_splits option.splits sum.splits)
  with Some have "\<And>page v. out = Some page \<Longrightarrow> v \<in> set page \<Longrightarrow> labelled d v"
    by (rule_tac limited_rows_labelled) auto
  then show ?thesis
    unfolding labelled_page_def by blast
qed

lemma no_public_resolver:
  "class_getattr ''get_complementary_entities'' = Inl (AttributeError ''get_complementary_entities'')"
  by (simp add: class_getattr_def SQLiteAdapter_methods_def object_attributes_def)

lemma format_page_statement:
  assumes "page_statement d q"
  shows "\<exists>q1. str_format q [str_arg (label d), [Lit []], int_arg x, int_arg y] = Inr q1
           \<and> ((\<exists>x' y'. q1 = page_query (label d) x' y')
                \<or> (\<exists>x' y'. q1 = random_query (label d) x' y'))"
proof -
  from assms consider "q = [Lit page_literal]"
    | x' y' where "q = page_query (label d) x' y'"
    | x' y' where "q = random_query (label d) x' y'"
    unfolding page_statement_def by blast
  then show ?thesis
  proof cases
    case 1
    then show ?thesis using format_page_literal [of "label d" x y] by blast
  next
    case 2
    then show ?thesis using format_page_query [of d x' y'] by blast
  next
    case 3
    then show ?thesis using format_random_query [of d x' y'] by blast
  qed
qed

lemma batch_step_labelled:
  assumes inv: "page_statement d q"
    and step: "batch_step rnd b d random uf [Lit []] i q self = (Inr bt, q', self')"
  shows "page_statement d q' \<and> labelled_page d (batch_out bt)"
proof -
  from format_page_statement [OF inv, of "int i * b" b]
  obtain q1 where q1: "str_format q [str_arg (label d), [Lit []], int_arg (int i * b), int_arg b] = Inr q1"
    and shape1: "(\<exists>x' y'. q1 = page_query (label d) x' y') \<or> (\<exists>x' y'. q1 = random_query (label d) x' y')"
    by blast
  define q2 where "q2 = (if random then random_query (label d) (int i * b) b else q1)"
  have shape2: "(\<exists>x' y'. q2 = page_query (label d) x' y') \<or> (\<exists>x' y'. q2 = random_query (label d) x' y')"
    using shape1 by (auto simp: q2_def)
  have sel: "(if random then
                str_format [Lit random_literal] [str_arg (label d), int_arg (int i * b), int_arg b]
              else Inr q1) = Inr q2"
    by (simp add: q2_def format_random_literal)
  obtain res self1 where ex: "execute_query rnd self q2 = (res, self1)"
    by (cases "execute_query rnd self q2")
  from step obtain out where out: "res = Inr out"
    by (cases res) (auto simp: batch_step_def q1 sel ex)
  from step have uf: "\<not> uf" and bt: "bt = Plain out" and q': "q' = q2"
    by (auto simp: batch_step_def q1 sel ex out no_public_resolver split: if_splits)
  have "labelled_page d out"
    using shape2 ex out execute_query_page_labelled execute_query_random_labelled by blast
  with shape2 show ?thesis
    by (auto simp: bt q' page_statement_def)
qed

lemma batch_loop_labelled:
  assumes "page_statement d q"
    and "batch_loop rnd b d random uf [Lit []] is q self = (bs, r, self')"
    and "bt \<in> set bs"
  shows "labelled_page d (batch_out bt)"
  using assms
proof (induction "is" arbitrary: q self bs r self')
  case Nil
  then show ?case by simp
next
  case (Cons i "is")
  obtain res q1 self1 where st: "batch_step (rnd i) b d random uf [Lit []] i q self = (res, q1, self1)"
    by (cases "batch_step (rnd i) b d random uf [Lit []] i q self")
  show ?case
  proof (cases res)
    case (Inl e)
    with Cons.prems st show ?thesis by simp
  next
    case (Inr b0)
    obtain bs1 r1 self2 where lp: "batch_loop rnd b d random uf [Lit []] is q1 self1 = (bs1, r1, self2)"
      by (cases "batch_loop rnd b d random uf [Lit []] is q1 self1")
    from Cons.prems(2) st Inr lp have bs: "bs = b0 # bs1" by simp
    from batch_step_labelled [OF Cons.prems(1)] st Inr
    have inv1: "page_statement d q1" and l0: "labelled_page d (batch_out b0)" by auto
    from Cons.prems(3) bs consider "bt = b0" | "bt \<in> set bs1" by auto
    then show ?thesis
    proof cases
      case 1
      with l0 show ?thesis by simp
    next
      case 2
      from Cons.IH [OF inv1 lp 2] show ?thesis .
    qed
  qed
qed

lemma get_batch_labelled:
  assumes "get_batch rnd self b d random uf ib = (bs, r, self')" and "bt \<in> set bs"
  shows "labelled_page d (batch_out bt)"
proof -
  obtain cr self1 where cb: "count_batches self b d = (cr, self1)"
    by (cases "count_batches self b d")
  show ?thesis
  proof (cases cr)
    case (Inl e)
    with assms cb show ?thesis by (simp add: get_batch_def)
  next
    case (Inr n)
    show ?thesis
    proof (cases "choose_index ib random")
      case (Inl e)
      with assms cb Inr show ?thesis by (simp add: get_batch_def)
    next
      case ci: (Inr ix)
      then have ix: "ix = [Lit []]" by (rule choose_index_Inr)
      from assms(1) cb Inr ci ix
      have "batch_loop rnd b d random uf [Lit []] [0..<nat n] [Lit page_literal] self1 = (bs, r, self')"
        by (simp add: get_batch_def)
      from batch_loop_labelled [OF _ this assms(2)] show ?thesis
        by (simp add: page_statement_def)
    qed
  qed
qed

lemma np_append_column_last:
  assumes "np_append_column rows (replicate n c) = Inr res" and "v \<in> set res"
  shows "v \<noteq> [] \<and> last v = c"
proof -
  from assms(1) have res: "res = map2 (\<lambda>r c. r @ [c]) rows (replicate n c)"
    by (auto simp: np_append_column_def split: if_splits)
  with assms(2) obtain r c' where "v = r @ [c']" and "(r, c') \<in> set (zip rows (replicate n c))"
    by auto
  moreover then have "c' = c" by (auto dest: set_zip_rightD)
  ultimately show ?thesis by simp
qed

lemma get_indexed_triples_last:
  assumes "get_indexed_triples ui m chunk d = Inr res" and "v \<in> set res"
  shows "v \<noteq> [] \<and> last v = SqlText (label d)"
  using assms
  by (auto simp: get_indexed_triples_def split: if_splits option.splits
      dest: np_append_column_last)

text \<open>
  Claim C6. For two distinct partition labels, a row that \<open>get_indexed_triples\<close>
  tagged with one label is in no batch that the generator yields for the other label:
  for every adapter state, every batch size, with and without random order, and whatever
  the rest of the table holds.
\<close>

theorem partition_isolation:
  assumes "d \<noteq> d'"
    and "get_indexed_triples ui m chunk d' = Inr ingested"
    and "v \<in> set ingested"
    and "get_batch rnd self b d random uf ib = (bs, r, self')"
    and "bt \<in> set bs"
    and "batch_out bt = Some page"
  shows "v \<notin> set page"
proof
  assume "v \<in> set page"
  with get_batch_labelled [OF assms(4,5)] assms(6) have "labelled d v"
    by (simp add: labelled_page_def)
  then have "last v = SqlText (label d)"
    by (auto simp: labelled_def as_tuple_def)
  moreover from get_indexed_triples_last [OF assms(2,3)] have "last v = SqlText (label d')"
    by simp
  ultimately have "label d = label d'" by simp
  with assms(1) show False by (auto dest: label_inj)
qed

theorem partition_isolation_witness:
  "Test \<noteq> Train
   \<and> get_indexed_triples (Flag False) None [[SqlInt 1, SqlInt 10, SqlInt 2]] Train
       = Inr [[SqlInt 1, SqlInt 10, SqlInt 2, SqlText ''train'']]
   \<and> get_batch no_random_pages (adapter_on (Some mixed_rows)) 1 Test False False []
       = ([Plain (Some [[SqlInt 1, SqlInt 10, SqlInt 2, SqlText ''test'']])], None,
          (adapter_on (Some mixed_rows))\<lparr>batches_count := Some 1\<rparr>)
   \<and> [SqlInt 1, SqlInt 10, SqlInt 2, SqlText ''train'']
       \<notin> set [[SqlInt 1, SqlInt 10, SqlInt 2, SqlText ''test'']]"
proof -
  have h1: "Test \<noteq> Train" by simp
  have h2: "get_indexed_triples (Flag False) None [[SqlInt 1, SqlInt 10, SqlInt 2]] Train
       = Inr [[SqlInt 1, SqlInt 10, SqlInt 2, SqlText ''train'']]"
    by code_simp
  have h3: "[SqlInt 1, SqlInt 10, SqlInt 2, SqlText ''train'']
       \<in> set [[SqlInt 1, SqlInt 10, SqlInt 2, SqlText ''train'']]"
    by simp
  have h4: "get_batch no_random_pages (adapter_on (Some mixed_rows)) 1 Test False False []
       = ([Plain (Some [[SqlInt 1, SqlInt 10, SqlInt 2, SqlText ''test'']])], None,
          (adapter_on (Some mixed_rows))\<lparr>batches_count := Some 1\<rparr>)"
    by code_simp
  have h5: "Plain (Some [[SqlInt 1, SqlInt 10, SqlInt 2, SqlText ''test'']])
       \<in> set [Plain (Some [[SqlInt 1, SqlInt 10, SqlInt 2, SqlText ''test'']])]"
    by simp
  have h6: "batch_out (Plain (Some [[SqlInt 1, SqlInt 10, SqlInt 2, SqlText ''test'']]))
       = Some [[SqlInt 1, SqlInt 10, SqlInt 2, SqlText ''test'']]"
    by simp
  from partition_isolation [OF h1 h2 h3 h4 h5 h6] h1 h2 h4
  show ?thesis by simp
qed

end
